theory Spec2Isabelle
  imports Complex_Main
begin

section \<open>The CLV dashboard of \<^verbatim>\<open>app.py\<close>\<close>

text \<open>
  \<^verbatim>\<open>app.py\<close> is a Streamlit script: three functions (lines 9-48) and a module-level
  pipeline (lines 60-131) that loads a transaction log, asks the \<^verbatim>\<open>lifetimes\<close> library
  for an RFM summary, fits two models, scores every customer and shows a recommendation
  for the customer selected in the page.

  Values. Timestamps are whole days (\<open>int\<close>). The library's numeric columns are floats;
  they are modelled as \<open>real\<close>, so comparisons are the source's comparisons on finite
  values; rounding is outside the model, and NaN appears only where the code can
  produce it itself (the quantile of an empty column).
\<close>

subsection \<open>Errors and data\<close>

datatype py_error =
    NameError string
  | KeyError int
  | TypeError
  | LibraryError string

text \<open>A row of \<^verbatim>\<open>cdnow.csv\<close> as \<^verbatim>\<open>read_csv\<close> returns it (line 15).\<close>

record csv_row =
  csv_customer_id :: int
  csv_date :: int
  csv_price :: real

text \<open>A row of the transaction frame after \<^verbatim>\<open>price\<close> is renamed (line 16).\<close>

record transaction =
  txn_customer_id :: int
  txn_date :: int
  txn_monetary_value :: real

type_synonym dataframe = "transaction list"

text \<open>
  A row of the RFM summary frame: the index (the customer) and the four columns that
  lines 43-47 and 71-74 read.
\<close>

record summary =
  customer_id :: int
  frequency :: real
  recency :: real
  T :: real
  monetary_value :: real

text \<open>The summary frame after line 78 has added the forecast column.\<close>

record scored = summary +
  predicted_clv_12_months :: real

subsection \<open>Data loading (lines 9-20)\<close>

text \<open>
  The file system is the argument: \<open>None\<close> when \<^verbatim>\<open>cdnow.csv\<close> is missing, in which case
  the \<^verbatim>\<open>except FileNotFoundError\<close> branch returns \<^verbatim>\<open>None\<close>.
\<close>

definition rename_price :: "csv_row \<Rightarrow> transaction" where
  "rename_price r =
     \<lparr>txn_customer_id = csv_customer_id r, txn_date = csv_date r,
      txn_monetary_value = csv_price r\<rparr>"

definition load_local_transaction_data :: "csv_row list option \<Rightarrow> dataframe option" where
  "load_local_transaction_data file =
     (case file of None \<Rightarrow> None | Some rows \<Rightarrow> Some (map rename_price rows))"

subsection \<open>Name resolution\<close>

text \<open>
  A call of a name looks the name up when the call runs: among the function's locals
  (here \<^verbatim>\<open>df\<close>, \<^verbatim>\<open>observation_period_end\<close>, \<^verbatim>\<open>summary_df\<close>), then the module's globals,
  then the builtins. The callee that
  \<^verbatim>\<open>prepare_lifetimes_data\<close> names takes the frame, three column names and the
  observation-period end; every other object a module binds is \<open>Other\<close>.
\<close>

type_synonym aggregator =
  "dataframe \<Rightarrow> string \<Rightarrow> string \<Rightarrow> string \<Rightarrow> int option \<Rightarrow> py_error + summary list"

datatype binding = Function aggregator | Other

type_synonym namespace = "(string \<times> binding) list"

definition lookup_name :: "namespace \<Rightarrow> string \<Rightarrow> py_error + binding" where
  "lookup_name env name =
     (case map_of env name of None \<Rightarrow> Inl (NameError name) | Some b \<Rightarrow> Inr b)"

text \<open>
  The names \<^verbatim>\<open>app.py\<close> has bound at module level when line 63 runs: the imports of
  lines 1-5, the three \<^verbatim>\<open>def\<close>s and \<^verbatim>\<open>transaction_df\<close>. None of them, and no Python
  builtin, is \<^verbatim>\<open>summary_data_from_transaction_data\<close>.
\<close>

definition app_globals :: namespace where
  "app_globals =
     [(''pd'', Other), (''st'', Other),
      (''BetaGeoFitter'', Other), (''GammaGammaFitter'', Other),
      (''plot_period_transactions'', Other), (''go'', Other),
      (''load_local_transaction_data'', Other),
      (''prepare_lifetimes_data'', Other),
      (''train_clv_models'', Other),
      (''transaction_df'', Other)]"

subsection \<open>RFM preparation (lines 23-36)\<close>

text \<open>\<^verbatim>\<open>df['date'].max()\<close>: the largest date of the whole frame, NaT (\<open>None\<close>) when it is empty.\<close>

definition date_max :: "dataframe \<Rightarrow> int option" where
  "date_max df =
     (case df of [] \<Rightarrow> None | t # ts \<Rightarrow> Some (fold max (map txn_date ts) (txn_date t)))"

text \<open>
  Line 28 runs first; line 29 then resolves the callee and calls it with the frame,
  the three column names and the value of line 28.
\<close>

definition prepare_lifetimes_data :: "namespace \<Rightarrow> dataframe \<Rightarrow> py_error + summary list" where
  "prepare_lifetimes_data env df =
     (let observation_period_end = date_max df in
      case lookup_name env ''summary_data_from_transaction_data'' of
        Inl e \<Rightarrow> Inl e
      | Inr Other \<Rightarrow> Inl TypeError
      | Inr (Function f) \<Rightarrow>
          f df ''customer_id'' ''date'' ''monetary_value'' observation_period_end)"

subsection \<open>The statistics library\<close>

text \<open>
  Modelled from the spec: the fitting routines and the lifetime-value combinator belong
  to the \<^verbatim>\<open>lifetimes\<close> package, which is not under src/. Following sections 4.2 and 4.3
  they are opaque services, taken as a parameter: a fit returns a model or raises, and
  the combinator returns one float per customer from that customer's four columns, the
  horizon and the discount rate. The first argument of a fit is \<^verbatim>\<open>penalizer_coef\<close>.
\<close>

record ('b, 'g) lifetimes =
  bgf_fit :: "real \<Rightarrow> real list \<Rightarrow> real list \<Rightarrow> real list \<Rightarrow> py_error + 'b"
  ggf_fit :: "real \<Rightarrow> real list \<Rightarrow> real list \<Rightarrow> py_error + 'g"
  customer_lifetime_value ::
    "'g \<Rightarrow> 'b \<Rightarrow> real \<Rightarrow> real \<Rightarrow> real \<Rightarrow> real \<Rightarrow> nat \<Rightarrow> real \<Rightarrow> real"

subsection \<open>Model training (lines 39-48)\<close>

text \<open>Line 43: \<^verbatim>\<open>summary_df.query("frequency > 0 and monetary_value > 0")\<close>.\<close>

definition ggf_ready_df :: "summary list \<Rightarrow> summary list" where
  "ggf_ready_df summary_df =
     filter (\<lambda>r. frequency r > 0 \<and> monetary_value r > 0) summary_df"

definition train_clv_models ::
  "('b, 'g) lifetimes \<Rightarrow> summary list \<Rightarrow> py_error + ('b \<times> 'g)" where
  "train_clv_models lib summary_df =
     (let ready = ggf_ready_df summary_df in
      case bgf_fit lib 0 (map frequency summary_df) (map recency summary_df)
             (map T summary_df) of
        Inl e \<Rightarrow> Inl e
      | Inr bgf \<Rightarrow>
          (case ggf_fit lib 0 (map frequency ready) (map monetary_value ready) of
             Inl e \<Rightarrow> Inl e
           | Inr ggf \<Rightarrow> Inr (bgf, ggf)))"

subsection \<open>CLV scoring (lines 68-78)\<close>

text \<open>
  Lines 69-77 pass the four columns of the whole summary frame with \<^verbatim>\<open>time=12\<close> and
  \<^verbatim>\<open>discount_rate=0.01\<close>; line 78 stores the result as a new column.
\<close>

definition clv_of ::
  "('b, 'g) lifetimes \<Rightarrow> 'b \<Rightarrow> 'g \<Rightarrow> summary \<Rightarrow> real" where
  "clv_of lib bgf_model ggf_model r =
     customer_lifetime_value lib ggf_model bgf_model
       (frequency r) (recency r) (T r) (monetary_value r) 12 (1 / 100)"

definition with_clv :: "summary \<Rightarrow> real \<Rightarrow> scored" where
  "with_clv r v = summary.extend r (scored.fields v)"

definition score_customers ::
  "('b, 'g) lifetimes \<Rightarrow> 'b \<Rightarrow> 'g \<Rightarrow> summary list \<Rightarrow> scored list" where
  "score_customers lib bgf_model ggf_model rfm_df =
     map (\<lambda>r. with_clv r (clv_of lib bgf_model ggf_model r)) rfm_df"

subsection \<open>Strategic recommendation (lines 110-117)\<close>

datatype segment = HIGH | MEDIUM | LOW

text \<open>
  Modelled from the spec: the interpolation step of \<^verbatim>\<open>Series.quantile\<close>, which belongs to
  pandas and is not under src/. Section 4.4 names the inclusive linear-interpolation
  method: the value at position \<open>h\<close> of the sorted values \<open>s\<close> lies between the two
  neighbours of \<open>h\<close>, in proportion to the fractional part of \<open>h\<close>.
\<close>

definition interpolate :: "real list \<Rightarrow> real \<Rightarrow> real" where
  "interpolate s h =
     (let i = nat \<lfloor>h\<rfloor>;
          g = h - real i
      in if Suc i < length s then s ! i + g * (s ! Suc i - s ! i) else s ! i)"

text \<open>
  Modelled from the spec: \<^verbatim>\<open>Series.quantile\<close> (pandas, not under src/). Section 4.4: the
  quantile \<open>q\<close> of \<open>n\<close> values sits at position \<open>(n - 1) * q\<close> of the sorted values.
  The quantile of an empty column is NaN, here \<open>None\<close>.
\<close>

definition quantile :: "real list \<Rightarrow> real \<Rightarrow> real option" where
  "quantile xs q =
     (if xs = [] then None
      else Some (interpolate (sort xs) (real (length xs - 1) * q)))"

text \<open>\<^verbatim>\<open>x > t\<close> on floats: false when \<open>t\<close> is NaN.\<close>

definition float_gt :: "real \<Rightarrow> real option \<Rightarrow> bool" where
  "float_gt x t = (case t of None \<Rightarrow> False | Some v \<Rightarrow> x > v)"

definition recommendation :: "real list \<Rightarrow> real \<Rightarrow> segment" where
  "recommendation population customer_clv =
     (let clv_threshold_high = quantile population (8 / 10);
          clv_threshold_low = quantile population (4 / 10)
      in if float_gt customer_clv clv_threshold_high then HIGH
         else if float_gt customer_clv clv_threshold_low then MEDIUM
         else LOW)"

subsection \<open>Individual customer analysis (lines 92-117)\<close>

text \<open>
  The select box yields a customer of the list, or nothing when the list is empty.
  \<^verbatim>\<open>rfm_df.loc[id]\<close> raises KeyError for an absent label and yields a frame, not a row,
  for a repeated one, on which \<^verbatim>\<open>int(...)\<close> at line 103 raises TypeError.
\<close>

definition analyse_customer :: "scored list \<Rightarrow> int option \<Rightarrow> py_error + segment option" where
  "analyse_customer rfm_df selected_customer =
     (case selected_customer of
        None \<Rightarrow> Inr None
      | Some c \<Rightarrow>
          (case filter (\<lambda>r. customer_id r = c) rfm_df of
             [] \<Rightarrow> Inl (KeyError c)
           | [customer_data] \<Rightarrow>
               Inr (Some (recommendation (map predicted_clv_12_months rfm_df)
                            (predicted_clv_12_months customer_data)))
           | _ \<Rightarrow> Inl TypeError))"

subsection \<open>The module-level pipeline (lines 60-131)\<close>

text \<open>
  What a run shows: the scored summary frame and the recommendation for the selected
  customer. The charts and the top-10 table only display these values.
\<close>

record report =
  rfm_table :: "scored list"
  shown_recommendation :: "segment option"

definition run_pipeline ::
  "namespace \<Rightarrow> ('b, 'g) lifetimes \<Rightarrow> dataframe option \<Rightarrow> int option
     \<Rightarrow> py_error + report option" where
  "run_pipeline env lib transaction_df selected_customer =
     (case transaction_df of
        None \<Rightarrow> Inr None
      | Some df \<Rightarrow>
          (case prepare_lifetimes_data env df of
             Inl e \<Rightarrow> Inl e
           | Inr rfm_df \<Rightarrow>
               (case train_clv_models lib rfm_df of
                  Inl e \<Rightarrow> Inl e
                | Inr (bgf_model, ggf_model) \<Rightarrow>
                    (let table = score_customers lib bgf_model ggf_model rfm_df in
                     case analyse_customer table selected_customer of
                       Inl e \<Rightarrow> Inl e
                     | Inr seg \<Rightarrow>
                         Inr (Some \<lparr>rfm_table = table, shown_recommendation = seg\<rparr>)))))"

subsection \<open>The library's side, from the specification\<close>

definition mean :: "real list \<Rightarrow> real" where
  "mean xs = sum_list xs / real (length xs)"

text \<open>
  Modelled from the spec: the per-customer step of \<^verbatim>\<open>summary_data_from_transaction_data\<close>,
  which belongs to the \<^verbatim>\<open>lifetimes\<close> package and is not under src/. Section 4.1, for a
  customer's records sorted by timestamp: frequency is the count minus one, recency is
  last minus first, T is the observation-period end minus first, and monetary value is
  the mean amount of the records after the first, zero when there is none. A customer's
  group is never empty; the first equation only makes the function total.
\<close>

fun rfm_summary :: "int \<Rightarrow> int \<Rightarrow> transaction list \<Rightarrow> summary" where
  "rfm_summary ope c [] =
     \<lparr>customer_id = c, frequency = 0, recency = 0, T = 0, monetary_value = 0\<rparr>"
| "rfm_summary ope c (t # ts) =
     \<lparr>customer_id = c,
      frequency = real (length ts),
      recency = real_of_int (txn_date (last (t # ts)) - txn_date t),
      T = real_of_int (ope - txn_date t),
      monetary_value = (if ts = [] then 0 else mean (map txn_monetary_value ts))\<rparr>"

text \<open>
  Modelled from the spec: \<^verbatim>\<open>summary_data_from_transaction_data\<close> (\<^verbatim>\<open>lifetimes\<close>, not under
  src/). Section 4.1: group the records by customer, sort each group by timestamp (ties
  in input order), one summary per distinct customer. An empty store is an error
  (section 7).
\<close>

definition summary_data_from_transaction_data :: aggregator where
  "summary_data_from_transaction_data df customer_id_col datetime_col monetary_value_col
       observation_period_end =
     (case observation_period_end of
        None \<Rightarrow> Inl (LibraryError ''DataError'')
      | Some ope \<Rightarrow>
          Inr (map (\<lambda>c. rfm_summary ope c
                          (sort_key txn_date (filter (\<lambda>t. txn_customer_id t = c) df)))
                 (sort (remdups (map txn_customer_id df)))))"

text \<open>The module's namespace once the missing import is added.\<close>

definition globals_with_import :: namespace where
  "globals_with_import =
     (''summary_data_from_transaction_data'', Function summary_data_from_transaction_data)
       # app_globals"

text \<open>
  Modelled from the spec: the lifetime-value combinator belongs to the \<^verbatim>\<open>lifetimes\<close>
  package, which is not under src/. Section 4.3: the sum, over the periods of the
  horizon, of the period's expected transactions times the expected value, divided by
  \<open>(1 + discount_rate) ^ period\<close>.
\<close>

definition discounted_value :: "(nat \<Rightarrow> real) \<Rightarrow> real \<Rightarrow> nat \<Rightarrow> real \<Rightarrow> real" where
  "discounted_value expected_transactions expected_value time discount_rate =
     (\<Sum>i\<leftarrow>[1..<Suc time].
        expected_transactions i * expected_value / (1 + discount_rate) ^ i)"

text \<open>
  A deterministic stand-in for the fitted models (section 9): a fit fails on an empty
  input (section 4.2), a customer is expected to repeat \<open>frequency\<close> purchases of
  \<open>monetary_value\<close> each period.
\<close>

definition stub_lifetimes :: "(unit, unit) lifetimes" where
  "stub_lifetimes =
     \<lparr>bgf_fit = (\<lambda>p fs rs ts. if fs = [] then Inl (LibraryError ''FitError'') else Inr ()),
      ggf_fit = (\<lambda>p fs ms. if fs = [] then Inl (LibraryError ''FitError'') else Inr ()),
      customer_lifetime_value =
        (\<lambda>g b f r t m time d. discounted_value (\<lambda>i. f) m time d)\<rparr>"

text \<open>
  A second stand-in, whose score shows the arguments the scorer was called with: the
  sum of the four columns' values, the horizon and the discount rate.
\<close>

definition probe_lifetimes :: "(unit, unit) lifetimes" where
  "probe_lifetimes =
     \<lparr>bgf_fit = (\<lambda>p fs rs ts. Inr ()),
      ggf_fit = (\<lambda>p fs ms. Inr ()),
      customer_lifetime_value = (\<lambda>g b f r t m time d. f + r + t + m + real time + d)\<rparr>"

subsection \<open>Example data\<close>

text \<open>The store of section 8: A (customer 1) buys on days 0, 10, 20; B (customer 2) on day 15.\<close>

definition example_csv :: "csv_row list" where
  "example_csv =
     [\<lparr>csv_customer_id = 1, csv_date = 0, csv_price = 10\<rparr>,
      \<lparr>csv_customer_id = 1, csv_date = 10, csv_price = 20\<rparr>,
      \<lparr>csv_customer_id = 1, csv_date = 20, csv_price = 30\<rparr>,
      \<lparr>csv_customer_id = 2, csv_date = 15, csv_price = 5\<rparr>]"

definition example_store :: dataframe where
  "example_store = map rename_price example_csv"

definition single_purchase_store :: dataframe where
  "single_purchase_store =
     [\<lparr>txn_customer_id = 7, txn_date = 3, txn_monetary_value = 12\<rparr>]"

text \<open>A summary frame with a repeat customer whose repeat purchases were free.\<close>

definition regular_customer :: summary where
  "regular_customer =
     \<lparr>customer_id = 1, frequency = 2, recency = 20, T = 20, monetary_value = 25\<rparr>"

definition free_repeat_customer :: summary where
  "free_repeat_customer =
     \<lparr>customer_id = 2, frequency = 1, recency = 10, T = 20, monetary_value = 0\<rparr>"

definition one_time_customer :: summary where
  "one_time_customer =
     \<lparr>customer_id = 3, frequency = 0, recency = 0, T = 5, monetary_value = 0\<rparr>"

definition example_rfm :: "summary list" where
  "example_rfm = [regular_customer, free_repeat_customer, one_time_customer]"

section \<open>Theorems\<close>

subsection \<open>The interpolated quantile is monotone\<close>

lemma interpolate_lower:
  assumes "sorted s" "0 \<le> h" "nat \<lfloor>h\<rfloor> < length s"
  shows "s ! nat \<lfloor>h\<rfloor> \<le> interpolate s h"
proof -
  let ?i = "nat \<lfloor>h\<rfloor>"
  have g: "0 \<le> h - real ?i" using assms(2) by linarith
  show ?thesis
  proof (cases "Suc ?i < length s")
    case True
    then have "s ! ?i \<le> s ! Suc ?i" using assms(1) by (simp add: sorted_nth_mono)
    then have "0 \<le> (h - real ?i) * (s ! Suc ?i - s ! ?i)" using g by simp
    then show ?thesis using True by (simp add: interpolate_def Let_def)
  next
    case False
    then show ?thesis by (simp add: interpolate_def Let_def)
  qed
qed

lemma interpolate_upper:
  assumes "sorted s" "0 \<le> h" "Suc (nat \<lfloor>h\<rfloor>) < length s"
  shows "interpolate s h \<le> s ! Suc (nat \<lfloor>h\<rfloor>)"
proof -
  let ?i = "nat \<lfloor>h\<rfloor>"
  have g: "h - real ?i \<le> 1" using assms(2) by linarith
  have d: "0 \<le> s ! Suc ?i - s ! ?i" using assms(1,3) by (simp add: sorted_nth_mono)
  have "(h - real ?i) * (s ! Suc ?i - s ! ?i) \<le> 1 * (s ! Suc ?i - s ! ?i)"
    using g d by (rule mult_right_mono)
  then show ?thesis using assms(3) by (simp add: interpolate_def Let_def)
qed

lemma interpolate_mono:
  assumes srt: "sorted s" and h1: "0 \<le> h1" and le: "h1 \<le> h2"
    and h2: "nat \<lfloor>h2\<rfloor> < length s"
  shows "interpolate s h1 \<le> interpolate s h2"
proof -
  let ?i = "nat \<lfloor>h1\<rfloor>" and ?j = "nat \<lfloor>h2\<rfloor>"
  have ij: "?i \<le> ?j" using le by (simp add: floor_mono nat_mono)
  show ?thesis
  proof (cases "?i = ?j")
    case True
    show ?thesis
    proof (cases "Suc ?j < length s")
      case S: True
      have d: "0 \<le> s ! Suc ?j - s ! ?j" using srt S by (simp add: sorted_nth_mono)
      have "(h1 - real ?j) * (s ! Suc ?j - s ! ?j) \<le> (h2 - real ?j) * (s ! Suc ?j - s ! ?j)"
        using le d by (intro mult_right_mono) simp_all
      then show ?thesis using True S by (simp add: interpolate_def Let_def)
    next
      case False
      then show ?thesis using True by (simp add: interpolate_def Let_def)
    qed
  next
    case False
    then have lt: "Suc ?i \<le> ?j" using ij by simp
    then have S: "Suc ?i < length s" using h2 by simp
    have "interpolate s h1 \<le> s ! Suc ?i" using srt h1 S by (rule interpolate_upper)
    also have "\<dots> \<le> s ! ?j" using srt lt h2 by (simp add: sorted_nth_mono)
    also have "\<dots> \<le> interpolate s h2" using srt h2 h1 le by (intro interpolate_lower) simp_all
    finally show ?thesis .
  qed
qed

lemma quantile_mono:
  assumes "xs \<noteq> []" "0 \<le> p" "p \<le> q" "q \<le> 1"
  shows "\<exists>a b. quantile xs p = Some a \<and> quantile xs q = Some b \<and> a \<le> b"
proof -
  define n where "n = length xs - 1"
  have len: "length (sort xs) = Suc n" using assms(1) by (cases xs) (simp_all add: n_def)
  have "real n * q \<le> real n * 1" using assms(4) by (intro mult_left_mono) simp_all
  then have "\<lfloor>real n * q\<rfloor> \<le> int n" by linarith
  then have r: "nat \<lfloor>real n * q\<rfloor> < length (sort xs)" unfolding len by linarith
  have "real n * p \<le> real n * q" using assms(3) by (intro mult_left_mono) simp_all
  moreover have "0 \<le> real n * p" using assms(2) by simp
  ultimately have "interpolate (sort xs) (real n * p) \<le> interpolate (sort xs) (real n * q)"
    using r by (intro interpolate_mono) simp_all
  then show ?thesis using assms(1) by (simp add: quantile_def n_def)
qed

subsection \<open>Helper facts\<close>

lemma lookup_aggregator_app_globals:
  "lookup_name app_globals ''summary_data_from_transaction_data'' =
     Inl (NameError ''summary_data_from_transaction_data'')"
  by (simp add: lookup_name_def app_globals_def)

lemma truncate_with_clv: "summary.truncate (with_clv r v) = r"
  by (simp add: with_clv_def summary.truncate_def summary.extend_def)

lemma predicted_with_clv: "predicted_clv_12_months (with_clv r v) = v"
  by (simp add: with_clv_def summary.extend_def scored.fields_def)

lemma customer_id_with_clv: "customer_id (with_clv r v) = customer_id r"
  by (simp add: with_clv_def summary.extend_def)

lemma date_max_Max: "df \<noteq> [] \<Longrightarrow> date_max df = Some (Max (txn_date ` set df))"
  by (cases df) (simp_all add: date_max_def Max.set_eq_fold [symmetric])

lemma discounted_value_antimono:
  assumes e: "\<forall>i. 0 \<le> e i" and v: "0 \<le> v" and d: "0 \<le> d1" "d1 \<le> d2"
  shows "discounted_value e v n d2 \<le> discounted_value e v n d1"
  unfolding discounted_value_def
proof (rule sum_list_mono)
  fix i assume "i \<in> set [1..<Suc n]"
  have num: "0 \<le> e i * v" using e v by simp
  have pos: "0 < (1 + d1) ^ i" using d by simp
  have "(1 + d1) ^ i \<le> (1 + d2) ^ i" using d by (intro power_mono) simp_all
  then show "e i * v / (1 + d2) ^ i \<le> e i * v / (1 + d1) ^ i"
    using num pos by (intro frac_le) simp_all
qed

lemmas example_defs =
  example_rfm_def regular_customer_def free_repeat_customer_def one_time_customer_def

lemma stub_clv_zero_value:
  "customer_lifetime_value stub_lifetimes g b f r t 0 n d = 0"
  by (simp add: stub_lifetimes_def discounted_value_def)

lemma q80: "quantile [1, 2, 3, 4, 5] (8 / 10) = Some (21 / 5)"
  by (simp add: quantile_def interpolate_def)

lemma q40: "quantile [1, 2, 3, 4, 5] (4 / 10) = Some (13 / 5)"
  by (simp add: quantile_def interpolate_def)

subsection \<open>RFM aggregation\<close>

text \<open>
  C1. The claim expects, for the store of section 8, the summaries
  (frequency 2, recency 20, T 20, monetary value 25) for A and (0, 0, 5, 0) for B.
  The module as written produces no summary for that store: the call of the
  aggregation raises NameError.
\<close>

theorem example_store_aggregation_raises:
  "prepare_lifetimes_data app_globals example_store =
     Inl (NameError ''summary_data_from_transaction_data'')"
  by (simp add: prepare_lifetimes_data_def lookup_aggregator_app_globals)

text \<open>
  C4. The claim expects one summary per distinct customer. For a store with one
  customer and one purchase the pipeline of the module as written stops with NameError
  and yields no summary at all.
\<close>

theorem single_purchase_pipeline_raises:
  "run_pipeline app_globals stub_lifetimes (Some single_purchase_store) (Some 7) =
     Inl (NameError ''summary_data_from_transaction_data'')"
  by (simp add: run_pipeline_def prepare_lifetimes_data_def lookup_aggregator_app_globals)

text \<open>
  C5. The observation-period end is the largest timestamp of the whole store: line 28
  takes the maximum of the date column of the entire frame, so it is at least every
  record's date whoever the customer is, and line 34 hands exactly this value to the
  aggregation, whatever function the name is bound to.
\<close>

theorem observation_period_end_is_store_maximum:
  assumes "df \<noteq> []"
  shows "date_max df = Some (Max (txn_date ` set df)) \<and>
         (\<forall>t \<in> set df. txn_date t \<le> Max (txn_date ` set df)) \<and>
         (lookup_name env ''summary_data_from_transaction_data'' = Inr (Function f) \<longrightarrow>
            prepare_lifetimes_data env df =
              f df ''customer_id'' ''date'' ''monetary_value'' (Some (Max (txn_date ` set df))))"
  using assms by (simp add: date_max_Max prepare_lifetimes_data_def)

text \<open>
  With the import added and the aggregation of section 4.1, customer B of the example
  store (last purchase on day 15) gets T = 20 - 15 = 5: the end is the store's day 20,
  not B's own last day.
\<close>

theorem observation_period_end_is_store_maximum_witness:
  "example_store \<noteq> [] \<and>
   date_max example_store = Some 20 \<and>
   lookup_name globals_with_import ''summary_data_from_transaction_data''
     = Inr (Function summary_data_from_transaction_data) \<and>
   prepare_lifetimes_data globals_with_import example_store =
     Inr [\<lparr>customer_id = 1, frequency = 2, recency = 20, T = 20, monetary_value = 25\<rparr>,
          \<lparr>customer_id = 2, frequency = 0, recency = 0, T = 5, monetary_value = 0\<rparr>]"
proof -
  have ne: "example_store \<noteq> []"
    by (simp add: example_store_def example_csv_def)
  have mx: "Max (txn_date ` set example_store) = 20"
    by (simp add: example_store_def example_csv_def rename_price_def)
  have lk: "lookup_name globals_with_import ''summary_data_from_transaction_data''
     = Inr (Function summary_data_from_transaction_data)"
    by (simp add: lookup_name_def globals_with_import_def)
  have ag: "summary_data_from_transaction_data example_store ''customer_id'' ''date''
       ''monetary_value'' (Some 20) =
     Inr [\<lparr>customer_id = 1, frequency = 2, recency = 20, T = 20, monetary_value = 25\<rparr>,
          \<lparr>customer_id = 2, frequency = 0, recency = 0, T = 5, monetary_value = 0\<rparr>]"
    by (simp add: summary_data_from_transaction_data_def example_store_def example_csv_def
        rename_price_def mean_def)
  show ?thesis
    using observation_period_end_is_store_maximum
      [OF ne, of globals_with_import summary_data_from_transaction_data] ne lk
    by (simp add: mx ag)
qed

text \<open>
  C9. In the module as written, \<^verbatim>\<open>prepare_lifetimes_data\<close> raises NameError for every
  transaction frame: the callee it names is bound nowhere in the module, so the RFM
  aggregation step never returns a summary.
\<close>

theorem prepare_lifetimes_data_raises_NameError:
  "prepare_lifetimes_data app_globals df =
     Inl (NameError ''summary_data_from_transaction_data'')"
  by (simp add: prepare_lifetimes_data_def lookup_aggregator_app_globals)

subsection \<open>Model training\<close>

text \<open>
  C2, as stated, fails: a customer with one repeat purchase of amount zero has
  frequency 1 and is still left out of the monetary fit.
\<close>

theorem free_repeat_customer_left_out_of_fit:
  "free_repeat_customer \<in> set example_rfm \<and>
   0 < frequency free_repeat_customer \<and>
   free_repeat_customer \<notin> set (ggf_ready_df example_rfm)"
  by (simp add: example_defs ggf_ready_df_def)

text \<open>
  C2, amended. The input of the monetary fit is exactly the rows with frequency > 0
  and monetary value > 0, in the order of the summary frame: every customer with
  frequency 0 is left out, and a customer with frequency > 0 is kept iff its monetary
  value is positive. When the frequency fit succeeds, the monetary fit is called on the
  two columns of these rows and its outcome is the outcome of training.
\<close>

theorem ggf_ready_df_rows:
  "(r \<in> set (ggf_ready_df summary_df) \<longleftrightarrow>
      r \<in> set summary_df \<and> 0 < frequency r \<and> 0 < monetary_value r) \<and>
   (bgf_fit lib 0 (map frequency summary_df) (map recency summary_df) (map T summary_df) = Inr b
      \<longrightarrow> train_clv_models lib summary_df =
            map_sum id (Pair b)
              (ggf_fit lib 0
                (map frequency (filter (\<lambda>r. 0 < frequency r \<and> 0 < monetary_value r) summary_df))
                (map monetary_value
                   (filter (\<lambda>r. 0 < frequency r \<and> 0 < monetary_value r) summary_df))))"
  by (auto simp: ggf_ready_df_def train_clv_models_def Let_def split: sum.splits)

theorem ggf_ready_df_rows_witness:
  "bgf_fit stub_lifetimes 0 (map frequency example_rfm) (map recency example_rfm)
      (map T example_rfm) = Inr () \<and>
   regular_customer \<in> set (ggf_ready_df example_rfm) \<and>
   train_clv_models stub_lifetimes example_rfm = Inr ((), ())"
  using ggf_ready_df_rows [of regular_customer example_rfm stub_lifetimes "()"]
  by (simp add: example_defs stub_lifetimes_def)

subsection \<open>CLV scoring\<close>

text \<open>
  C6. For the discounted sum of section 4.3, with expected transactions and expected
  value non-negative as section 4.2 requires, raising the discount rate from 0.01 to
  0.10 with everything else fixed does not raise the predicted value, for any horizon.
\<close>

theorem higher_discount_rate_never_raises_value:
  assumes "\<forall>i. 0 \<le> expected_transactions i" and "0 \<le> expected_value"
  shows "discounted_value expected_transactions expected_value time (10 / 100)
           \<le> discounted_value expected_transactions expected_value time (1 / 100)"
  using assms by (intro discounted_value_antimono) simp_all

theorem higher_discount_rate_never_raises_value_witness:
  "(\<forall>i::nat. (0::real) \<le> 2) \<and> (0::real) \<le> 25 \<and>
   discounted_value (\<lambda>i. 2) 25 12 (10 / 100) \<le> discounted_value (\<lambda>i. 2) 25 12 (1 / 100)"
  using higher_discount_rate_never_raises_value [of "\<lambda>i. 2" 25 12] by simp

text \<open>
  C7, as stated, fails: a customer with frequency 1 and monetary value 0 is not skipped;
  the scored frame has a row for every customer of the summary frame.
\<close>

theorem inconsistent_customer_still_scored:
  "free_repeat_customer \<in> set example_rfm \<and>
   0 < frequency free_repeat_customer \<and> monetary_value free_repeat_customer \<le> 0 \<and>
   map customer_id (score_customers stub_lifetimes () () example_rfm) = [1, 2, 3]"
  by (simp add: example_defs score_customers_def customer_id_with_clv)

text \<open>
  C7, amended. Scoring never aborts on a per-customer inconsistency and never skips:
  the scored frame has as many rows as the summary frame, and a customer with
  monetary value <= 0 and frequency > 0 is in it with the value the scorer returns.
\<close>

theorem scoring_keeps_inconsistent_customers:
  "length (score_customers lib b g rfm_df) = length rfm_df \<and>
   (\<forall>r \<in> set rfm_df. 0 < frequency r \<and> monetary_value r \<le> 0 \<longrightarrow>
      with_clv r (clv_of lib b g r) \<in> set (score_customers lib b g rfm_df))"
  by (simp add: score_customers_def)

theorem scoring_keeps_inconsistent_customers_witness:
  "free_repeat_customer \<in> set example_rfm \<and>
   0 < frequency free_repeat_customer \<and> monetary_value free_repeat_customer \<le> 0 \<and>
   length (score_customers stub_lifetimes () () example_rfm) = 3 \<and>
   with_clv free_repeat_customer 0 \<in> set (score_customers stub_lifetimes () () example_rfm)"
  using scoring_keeps_inconsistent_customers [of stub_lifetimes "()" "()" example_rfm]
  by (simp add: example_defs clv_of_def stub_clv_zero_value)

text \<open>
  C10. The library's scorer is applied to every row of the summary frame: dropping the
  new column gives back the summary frame, the new column holds, row by row, the value
  \<^verbatim>\<open>customer_lifetime_value\<close> returns for the fitted models and that row's frequency,
  recency, T and monetary value with horizon 12 and rate 0.01, and a customer with
  frequency 0 and monetary value 0, who is left out of the monetary fit, is in the
  scored frame with the scorer's value for it.
\<close>

theorem every_customer_is_scored:
  "map summary.truncate (score_customers lib b g rfm_df) = rfm_df \<and>
   map predicted_clv_12_months (score_customers lib b g rfm_df) =
     map (\<lambda>r. customer_lifetime_value lib g b
                 (frequency r) (recency r) (T r) (monetary_value r) 12 (1 / 100)) rfm_df \<and>
   (\<forall>r \<in> set rfm_df. frequency r = 0 \<and> monetary_value r = 0 \<longrightarrow>
      r \<notin> set (ggf_ready_df rfm_df) \<and>
      with_clv r (customer_lifetime_value lib g b 0 (recency r) (T r) 0 12 (1 / 100))
        \<in> set (score_customers lib b g rfm_df))"
proof -
  have col: "map predicted_clv_12_months (score_customers lib b g rfm_df) =
     map (\<lambda>r. customer_lifetime_value lib g b
                 (frequency r) (recency r) (T r) (monetary_value r) 12 (1 / 100)) rfm_df"
    by (simp add: score_customers_def comp_def predicted_with_clv clv_of_def)
  have rows: "map summary.truncate (score_customers lib b g rfm_df) = rfm_df"
    by (simp add: score_customers_def comp_def truncate_with_clv)
  have zero: "r \<notin> set (ggf_ready_df rfm_df) \<and>
      with_clv r (customer_lifetime_value lib g b 0 (recency r) (T r) 0 12 (1 / 100))
        \<in> set (score_customers lib b g rfm_df)"
    if "r \<in> set rfm_df" "frequency r = 0 \<and> monetary_value r = 0" for r
  proof -
    have "with_clv r (clv_of lib b g r) \<in> set (score_customers lib b g rfm_df)"
      using that(1) by (simp add: score_customers_def)
    then show ?thesis using that(2) by (simp add: clv_of_def ggf_ready_df_def)
  qed
  show ?thesis using col rows zero by blast
qed

text \<open>
  On the example frame with the probing stand-in, the new column is 79.01, 43.01 and
  17.01: each row's four values plus horizon 12 and rate 0.01. The one-time customer is
  not a row of the monetary fit's input and has its score 5 + 12 + 0.01.
\<close>

theorem every_customer_is_scored_witness:
  "one_time_customer \<in> set example_rfm \<and>
   frequency one_time_customer = 0 \<and> monetary_value one_time_customer = 0 \<and>
   one_time_customer \<notin> set (ggf_ready_df example_rfm) \<and>
   map predicted_clv_12_months (score_customers probe_lifetimes () () example_rfm) =
     [7901 / 100, 4301 / 100, 1701 / 100] \<and>
   with_clv one_time_customer (1701 / 100)
     \<in> set (score_customers probe_lifetimes () () example_rfm)"
  using every_customer_is_scored [of probe_lifetimes "()" "()" example_rfm]
  by (simp add: example_defs probe_lifetimes_def)

subsection \<open>Recommendation\<close>

text \<open>
  C3. For a non-empty population both thresholds exist, and the recommendation is HIGH
  iff the value is above the 80th percentile, LOW iff it is at most the 40th
  percentile, MEDIUM iff it is in between; so every value gets exactly one of the
  three labels, and a value equal to a threshold gets the lower one.
\<close>

theorem recommendation_partitions_population:
  assumes "population \<noteq> []"
  shows "\<exists>hi lo. quantile population (8 / 10) = Some hi \<and>
           quantile population (4 / 10) = Some lo \<and>
           (recommendation population v = HIGH \<longleftrightarrow> hi < v) \<and>
           (recommendation population v = LOW \<longleftrightarrow> v \<le> lo) \<and>
           (recommendation population v = MEDIUM \<longleftrightarrow> lo < v \<and> v \<le> hi) \<and>
           (v = hi \<longrightarrow> recommendation population v \<noteq> HIGH) \<and>
           (v = lo \<longrightarrow> recommendation population v = LOW)"
proof -
  obtain lo hi where q: "quantile population (4 / 10) = Some lo"
      "quantile population (8 / 10) = Some hi" and le: "lo \<le> hi"
    using quantile_mono [OF assms, of "4 / 10" "8 / 10"] by auto
  show ?thesis using q le by (auto simp: recommendation_def float_gt_def)
qed

theorem recommendation_partitions_population_witness:
  "[1, 2, 3, 4, 5 :: real] \<noteq> [] \<and>
   quantile [1, 2, 3, 4, 5] (8 / 10) = Some (21 / 5) \<and>
   quantile [1, 2, 3, 4, 5] (4 / 10) = Some (13 / 5) \<and>
   recommendation [1, 2, 3, 4, 5] (21 / 5) = MEDIUM"
proof -
  have ne: "[1, 2, 3, 4, 5 :: real] \<noteq> []" by simp
  obtain hi lo where hi: "quantile [1, 2, 3, 4, 5] (8 / 10) = Some hi"
    and lo: "quantile [1, 2, 3, 4, 5] (4 / 10) = Some lo"
    and med: "recommendation [1, 2, 3, 4, 5] (21 / 5) = MEDIUM \<longleftrightarrow> lo < 21 / 5 \<and> 21 / 5 \<le> hi"
    using recommendation_partitions_population [OF ne, of "21 / 5"] by blast
  have "hi = 21 / 5" using hi unfolding q80 by simp
  moreover have "lo = 13 / 5" using lo unfolding q40 by simp
  ultimately have "recommendation [1, 2, 3, 4, 5] (21 / 5) = MEDIUM" using med by simp
  then show ?thesis using ne q80 q40 by blast
qed

end
